theory Spec2Isabelle
  imports Complex_Main "HOL-Library.Sublist"
begin

section \<open>Squat form analysis: a shallow embedding\<close>

text \<open>
  The development follows \<^verbatim>\<open>src/exercise_1/llm_form_analysis/llm_form_analysis.py\<close>,
  \<^verbatim>\<open>src/exercise_1/calculation/calculation.py\<close> and \<^verbatim>\<open>src/exercise_1/exercise.py\<close>.

  Numbers. Python's \<^verbatim>\<open>float\<close> is modelled by exact arithmetic: \<^typ>\<open>rat\<close> where the
  code only adds, multiplies, divides and compares, \<^typ>\<open>real\<close> where it calls
  \<^verbatim>\<open>math.atan2\<close> or takes a square root. Rounding error of binary floating point is
  outside the model; the concrete inputs used below are chosen so that every intermediate
  value is far from the comparison it feeds or is exactly representable.
  Frame numbers and list positions are \<^typ>\<open>nat\<close>, scores are \<^typ>\<open>int\<close>.
\<close>

subsection \<open>Score aggregation\<close>

text \<open>
  A metric result is the dictionary an analyzer returns. Only its \<^verbatim>\<open>status\<close> and its
  optional \<^verbatim>\<open>score\<close> are read by the aggregator; an analyzer in error state returns a
  dictionary without \<^verbatim>\<open>score\<close>, which is \<open>score = None\<close> here.
\<close>

record metric_result =
  status :: string
  score :: "int option"

type_synonym form_analysis = "string \<rightharpoonup> metric_result"

record final_score_result =
  final_score :: int
  grade :: string
  component_scores :: "(string \<times> int) list"
  weights_used :: "(string \<times> rat) list"

text \<open>Python's \<^verbatim>\<open>int(x)\<close> on a float: truncation towards zero.\<close>

definition py_int :: "rat \<Rightarrow> int" where
  "py_int x = (if 0 \<le> x then \<lfloor>x\<rfloor> else \<lceil>x\<rceil>)"

definition determine_grade :: "int \<Rightarrow> string" where
  "determine_grade fs =
     (if fs \<ge> 90 then ''Excellent''
      else if fs \<ge> 75 then ''Good''
      else if fs \<ge> 60 then ''Fair''
      else ''Needs Improvement'')"

text \<open>The literal \<^verbatim>\<open>weights\<close> dictionary, in insertion order.\<close>

definition weights :: "(string \<times> rat) list" where
  "weights =
     [(''torso_angle'', 25 / 100), (''quad_angle'', 25 / 100), (''glute_dominance'', 12 / 100),
      (''rep_consistency'', 18 / 100), (''torso_asymmetry'', 8 / 100),
      (''quad_asymmetry'', 7 / 100), (''ankle_asymmetry'', 5 / 100)]"

text \<open>
  One iteration of \<^verbatim>\<open>for key, weight in weights.items()\<close>; the state is
  \<open>(weighted_sum, total_weight, component_scores)\<close>.
\<close>

definition score_step ::
  "form_analysis \<Rightarrow> string \<times> rat \<Rightarrow> rat \<times> rat \<times> (string \<times> int) list
     \<Rightarrow> rat \<times> rat \<times> (string \<times> int) list" where
  "score_step fa kw st =
     (case kw of (key, weight) \<Rightarrow>
      case st of (weighted_sum, total_weight, comps) \<Rightarrow>
       (case fa key of
          None \<Rightarrow> st
        | Some analysis \<Rightarrow>
           (case score analysis of
              None \<Rightarrow> st
            | Some s \<Rightarrow>
               (weighted_sum + of_int s * weight, total_weight + weight, comps @ [(key, s)]))))"

definition calculate_final_score :: "form_analysis \<Rightarrow> final_score_result" where
  "calculate_final_score fa =
     (case fold (score_step fa) weights (0, 0, []) of
        (weighted_sum, total_weight, comps) \<Rightarrow>
          (let fs = (if total_weight > 0 then py_int (weighted_sum / total_weight) else 0)
           in \<lparr>final_score = fs, grade = determine_grade fs,
               component_scores = comps, weights_used = weights\<rparr>))"







subsection \<open>Rep segmentation\<close>

text \<open>
  A sample is a pair \<open>(frame, angle)\<close> of \<^verbatim>\<open>valid_angles\<close>; a peak carries in front the
  position of its sample in \<^verbatim>\<open>valid_angles\<close>, as the tuples \<^verbatim>\<open>(idx, peak_data)\<close> do.
\<close>

type_synonym sample = "nat \<times> rat"
type_synonym peak = "nat \<times> sample"

datatype error = StopIteration | ZeroDivisionError | IndexError

record rep =
  start_frame :: nat
  bottom_frame :: nat
  end_frame :: nat

definition is_local_max :: "nat \<Rightarrow> sample list \<Rightarrow> rat \<Rightarrow> bool" where
  "is_local_max i avs min_height =
     (if i < 2 \<or> int i \<ge> int (length avs) - 2 then False
      else
        (let prev2 = snd (avs ! (i - 2)); prev1 = snd (avs ! (i - 1));
             curr = snd (avs ! i);
             next1 = snd (avs ! (i + 1)); next2 = snd (avs ! (i + 2))
         in curr > prev1 \<and> curr > next1 \<and> curr \<ge> min_height \<and> curr > prev2 \<and> curr > next2))"

text \<open>
  One iteration of the loop of \<^verbatim>\<open>_filter_peaks_by_distance\<close> over the accepted
  \<^verbatim>\<open>peaks\<close>, which are never empty inside the loop.
\<close>

definition fpd_step :: "int \<Rightarrow> peak \<Rightarrow> peak list \<Rightarrow> peak list" where
  "fpd_step min_distance c peaks =
     (case c of (idx, peak_data) \<Rightarrow>
       (let frame_diff = int idx - int (fst (last peaks))
        in if frame_diff \<ge> min_distance then peaks @ [(idx, peak_data)]
           else if snd peak_data > snd (snd (last peaks)) then butlast peaks @ [(idx, peak_data)]
           else peaks))"

text \<open>The list \<^verbatim>\<open>peaks\<close> when the loop has run over all of a non-empty \<^verbatim>\<open>candidates\<close>.\<close>

definition accepted_peaks :: "peak list \<Rightarrow> int \<Rightarrow> peak list" where
  "accepted_peaks candidates min_distance =
     fold (fpd_step min_distance) (tl candidates) [hd candidates]"

definition filter_peaks_by_distance :: "peak list \<Rightarrow> int \<Rightarrow> sample list" where
  "filter_peaks_by_distance candidates min_distance =
     (if candidates = [] then [] else map snd (accepted_peaks candidates min_distance))"

definition peak_candidates :: "sample list \<Rightarrow> rat \<Rightarrow> peak list" where
  "peak_candidates avs min_height =
     map (\<lambda>i. (i, avs ! i)) (filter (\<lambda>i. is_local_max i avs min_height) [2..<length avs - 2])"

definition find_peaks :: "sample list \<Rightarrow> rat \<Rightarrow> int \<Rightarrow> sample list" where
  "find_peaks avs min_height min_distance =
     filter_peaks_by_distance (peak_candidates avs min_height) min_distance"

text \<open>
  One iteration of \<^verbatim>\<open>for i in range(1, len(peaks_with_indices))\<close> in
  \<^verbatim>\<open>_filter_bounce_reps\<close>. The function does not read its second argument,
  \<^verbatim>\<open>angles_with_indices\<close>.
\<close>

definition bounce_step :: "peak list \<Rightarrow> int \<Rightarrow> nat \<Rightarrow> peak list \<Rightarrow> peak list" where
  "bounce_step ps bounce_threshold i filtered =
     (case ps ! (i - 1) of (prev_idx, prev_peak_data) \<Rightarrow>
      case ps ! i of (curr_idx, curr_peak_data) \<Rightarrow>
        if int curr_idx - int prev_idx < bounce_threshold
            \<and> snd curr_peak_data \<ge> snd prev_peak_data * (9 / 10)
        then butlast filtered @ [(curr_idx, curr_peak_data)]
        else filtered @ [(curr_idx, curr_peak_data)])"

definition filter_bounce_reps :: "peak list \<Rightarrow> sample list \<Rightarrow> int \<Rightarrow> peak list" where
  "filter_bounce_reps ps angles_with_indices bounce_threshold =
     (if length ps < 2 then ps
      else fold (bounce_step ps bounce_threshold) [1..<length ps] [ps ! 0])"

text \<open>
  \<^verbatim>\<open>next(i for i, (f, _) in enumerate(avs) if f == frame)\<close>; \<open>None\<close> is the
  \<^verbatim>\<open>StopIteration\<close> that \<^verbatim>\<open>next\<close> raises on an exhausted generator.
\<close>

definition find_frame_index :: "sample list \<Rightarrow> nat \<Rightarrow> nat option" where
  "find_frame_index avs frame =
     map_option fst (List.find (\<lambda>(i, fa). fst fa = frame) (enumerate 0 avs))"

text \<open>
  The two scanning loops with \<^verbatim>\<open>break\<close> are searches for the first position, in scan
  order, whose angle is below the threshold. The parameter \<^verbatim>\<open>baseline\<close> is not read by
  the source function.
\<close>

definition find_rep_start_end ::
  "sample list \<Rightarrow> nat \<Rightarrow> rat \<Rightarrow> rat \<Rightarrow> error + (nat \<times> nat)" where
  "find_rep_start_end avs peak_frame baseline threshold =
     (case find_frame_index avs peak_frame of
        None \<Rightarrow> Inl StopIteration
      | Some peak_idx \<Rightarrow>
         (let start_fr =
                (case List.find (\<lambda>i. snd (avs ! i) < threshold) (rev [0..<peak_idx]) of
                   Some i \<Rightarrow> (if i + 1 \<le> peak_idx then fst (avs ! (i + 1)) else peak_frame)
                 | None \<Rightarrow> fst (avs ! 0));
              end_fr =
                (case List.find (\<lambda>i. snd (avs ! i) < threshold) [peak_idx + 1..<length avs] of
                   Some i \<Rightarrow> (if i - 1 \<ge> peak_idx then fst (avs ! (i - 1)) else peak_frame)
                 | None \<Rightarrow> fst (last avs))
          in Inr (start_fr, end_fr)))"

text \<open>
  \<^verbatim>\<open>_calculate_baseline\<close> is only called on a non-empty list (the caller returns
  before, otherwise), where Python's \<^verbatim>\<open>min\<close> does not raise.
\<close>

definition calculate_baseline :: "sample list \<Rightarrow> rat" where
  "calculate_baseline valid_angles =
     (if length valid_angles > 20
      then min_list (map snd (take 10 valid_angles)
                      @ map snd (drop (length valid_angles - 10) valid_angles))
      else min_list (map snd valid_angles))"

fun build_reps_from_peaks :: "peak list \<Rightarrow> sample list \<Rightarrow> rat \<Rightarrow> rat \<Rightarrow> error + rep list" where
  "build_reps_from_peaks [] valid_angles baseline threshold = Inr []"
| "build_reps_from_peaks ((peak_idx, (peak_frame, peak_angle)) # rest) valid_angles baseline threshold =
     (case find_rep_start_end valid_angles peak_frame baseline threshold of
        Inl e \<Rightarrow> Inl e
      | Inr (s, e) \<Rightarrow>
         (case build_reps_from_peaks rest valid_angles baseline threshold of
            Inl err \<Rightarrow> Inl err
          | Inr reps \<Rightarrow>
              Inr (if s < e
                   then \<lparr>start_frame = s, bottom_frame = peak_frame, end_frame = e\<rparr> # reps
                   else reps)))"

text \<open>\<^verbatim>\<open>[(i, a) for i, a in enumerate(quad_angles_per_frame) if a is not None]\<close>\<close>

definition valid_samples :: "rat option list \<Rightarrow> sample list" where
  "valid_samples q = List.map_filter (\<lambda>(i, a). map_option (Pair i) a) (enumerate 0 q)"

text \<open>
  \<^verbatim>\<open>[(next(...), p) for p in peaks]\<close>: the comprehension raises as soon as one
  \<^verbatim>\<open>next\<close> does.
\<close>

fun index_peaks :: "sample list \<Rightarrow> sample list \<Rightarrow> error + peak list" where
  "index_peaks valid_angles [] = Inr []"
| "index_peaks valid_angles (p # ps) =
     (case find_frame_index valid_angles (fst p) of
        None \<Rightarrow> Inl StopIteration
      | Some i \<Rightarrow>
         (case index_peaks valid_angles ps of
            Inl e \<Rightarrow> Inl e
          | Inr rest \<Rightarrow> Inr ((i, p) # rest)))"

definition detect_squat_phases :: "rat option list \<Rightarrow> rat \<Rightarrow> error + rep list" where
  "detect_squat_phases quad_angles_per_frame fps =
     (if quad_angles_per_frame = [] \<or> list_all (\<lambda>a. a = None) quad_angles_per_frame
      then Inr []
      else
        (let valid_angles = valid_samples quad_angles_per_frame in
         if valid_angles = [] then Inr []
         else
           (let baseline = calculate_baseline valid_angles;
                squat_threshold = baseline + 20;
                peaks = find_peaks valid_angles squat_threshold 30
            in if peaks = [] then Inr []
               else
                 (let bounce_threshold_frames = py_int (fps * 1)
                  in case index_peaks valid_angles peaks of
                       Inl e \<Rightarrow> Inl e
                     | Inr peaks_with_indices \<Rightarrow>
                         build_reps_from_peaks
                           (filter_bounce_reps peaks_with_indices valid_angles
                              bounce_threshold_frames)
                           valid_angles baseline squat_threshold))))"

subsection \<open>Active-phase filtering\<close>

text \<open>
  \<^verbatim>\<open>_filter_to_active_phases\<close> calls \<^verbatim>\<open>detect_squat_phases\<close> with its default
  \<^verbatim>\<open>fps = 30.0\<close>.
\<close>

definition filter_to_active_phases ::
  "rat option list \<Rightarrow> rat option list \<Rightarrow> error + rat option list" where
  "filter_to_active_phases torso_angles_per_frame quad_angles_per_frame =
     (case detect_squat_phases quad_angles_per_frame 30 of
        Inl e \<Rightarrow> Inl e
      | Inr reps \<Rightarrow>
         if reps = [] then Inr torso_angles_per_frame
         else
           (let active_frames =
                  concat (map (\<lambda>r. [start_frame r..<end_frame r + 1]) reps)
            in if active_frames = [] then Inr torso_angles_per_frame
               else Inr (map (\<lambda>i. if i < length torso_angles_per_frame
                                   then torso_angles_per_frame ! i else None)
                             active_frames)))"

text \<open>
  \<^verbatim>\<open>Exercise1._extract_active_angles\<close>. Its \<^verbatim>\<open>phases\<close> argument is a dictionary read
  only through the key \<^verbatim>\<open>"reps"\<close>: \<open>None\<close> is a dictionary without that key.
\<close>

definition extract_active_angles :: "'a option list \<Rightarrow> rep list option \<Rightarrow> 'a option list" where
  "extract_active_angles angles phases =
     (case phases of
        None \<Rightarrow> angles
      | Some reps \<Rightarrow>
          if reps = [] then angles
          else concat (map (\<lambda>r. map (\<lambda>i. if i < length angles then angles ! i else None)
                                     [start_frame r..<end_frame r + 1]) reps))"

subsection \<open>Rep consistency\<close>

text \<open>
  \<^verbatim>\<open>variance ** 0.5\<close> of a non-negative float is the square root. The tuples returned
  by the source also carry a formatted message and a dictionary of rounded values; they
  are computed from the values kept here and are not modelled, and the parameter
  \<^verbatim>\<open>metric_name\<close>, which only enters the message, is left out with them.
\<close>

definition calculate_consistency_metrics ::
  "real list \<Rightarrow> real option \<times> real option \<times> real option" where
  "calculate_consistency_metrics per_rep_values =
     (if length per_rep_values < 2 then (None, None, None)
      else
        (let mean_val = sum_list per_rep_values / of_nat (length per_rep_values);
             variance = sum_list (map (\<lambda>v. (v - mean_val) ^ 2) per_rep_values)
                          / of_nat (length per_rep_values);
             std_dev = sqrt variance;
             cv = (if mean_val \<noteq> 0 then Some (std_dev / mean_val * 100) else None)
         in (Some mean_val, Some std_dev, cv)))"

definition determine_consistency_status :: "real option \<Rightarrow> string \<times> int" where
  "determine_consistency_status cv =
     (case cv of
        None \<Rightarrow> (''error'', 0)
      | Some c \<Rightarrow>
          if c < 5 then (''good'', 100)
          else if c < 10 then (''warning'', 75)
          else (''poor'', 50))"

text \<open>Python's truth value of \<^verbatim>\<open>cv\<close>: \<^verbatim>\<open>None\<close> and \<^verbatim>\<open>0.0\<close> are false.\<close>

definition truthy :: "real option \<Rightarrow> bool" where
  "truthy v = (case v of None \<Rightarrow> False | Some c \<Rightarrow> c \<noteq> 0)"

definition analyze_single_consistency :: "real list \<Rightarrow> string \<times> int" where
  "analyze_single_consistency vals =
     (case calculate_consistency_metrics vals of
        (mean_val, std_val, cv) \<Rightarrow>
          if truthy cv then determine_consistency_status cv else (''error'', 0))"

text \<open>
  The rule as the specification words it: the coefficient of variation of a list and the
  verdict it drives.
\<close>

definition cv_of :: "real list \<Rightarrow> real" where
  "cv_of vals =
     (let m = sum_list vals / of_nat (length vals)
      in sqrt (sum_list (map (\<lambda>v. (v - m) ^ 2) vals) / of_nat (length vals)) / m * 100)"

definition cv_rule :: "real \<Rightarrow> string \<times> int" where
  "cv_rule c =
     (if c < 5 then (''good'', 100) else if c < 10 then (''warning'', 75) else (''poor'', 50))"

subsection \<open>Movement onset\<close>

definition calculate_smoothed_baseline :: "rat option list \<Rightarrow> nat \<Rightarrow> nat \<Rightarrow> rat" where
  "calculate_smoothed_baseline angles start window =
     (let valid = map (\<lambda>i. the (angles ! i))
                    (filter (\<lambda>i. i < length angles \<and> angles ! i \<noteq> None)
                       [start..<min (start + window) (length angles)])
      in if valid \<noteq> [] then sum_list valid / of_nat (length valid)
         else if start < length angles \<and> angles ! start \<noteq> None then the (angles ! start)
         else 0)"

text \<open>The test in the body of the loop of \<^verbatim>\<open>_detect_movement_start_velocity\<close>.\<close>

definition onset_test :: "rat option list \<Rightarrow> rat \<Rightarrow> rat \<Rightarrow> rat \<Rightarrow> nat \<Rightarrow> bool" where
  "onset_test angles fps velocity_threshold baseline i =
     (case angles ! i of
        None \<Rightarrow> False
      | Some a \<Rightarrow>
         (case angles ! (i - 1) of
            None \<Rightarrow> False
          | Some b \<Rightarrow>
             (let velocity = \<bar>a - b\<bar> * fps
              in velocity \<ge> velocity_threshold \<and> \<bar>a - baseline\<bar> \<ge> 3)))"

definition detect_movement_start_velocity ::
  "rat option list \<Rightarrow> nat \<Rightarrow> nat \<Rightarrow> rat \<Rightarrow> error + nat" where
  "detect_movement_start_velocity angles start end_fr fps =
     (if start \<ge> length angles \<or> end_fr \<ge> length angles \<or> end_fr \<le> start then Inr start
      else
        (let baseline = calculate_smoothed_baseline angles start 3 in
         if fps = 0 then Inl ZeroDivisionError
         else
           (let velocity_threshold = 2 / fps
            in case List.find (onset_test angles fps velocity_threshold baseline)
                      [start + 1..<min (end_fr + 1) (length angles)] of
                 Some i \<Rightarrow> Inr i
               | None \<Rightarrow> Inr start)))"

text \<open>
  The onset as the specification words it: the first frame of the window whose speed
  \<open>|\<Delta>angle| \<times> fps\<close> is at least 2 degrees per second and whose angle is at least 3 degrees
  away from the smoothed baseline.
\<close>

definition spec_onset :: "rat option list \<Rightarrow> nat \<Rightarrow> nat \<Rightarrow> rat \<Rightarrow> nat option" where
  "spec_onset angles start end_fr fps =
     List.find (onset_test angles fps 2 (calculate_smoothed_baseline angles start 3))
       [start + 1..<min (end_fr + 1) (length angles)]"

subsection \<open>Angle extraction\<close>

text \<open>
  A landmark; the fields are \<^verbatim>\<open>x\<close> and \<^verbatim>\<open>y\<close> in the source. A frame is \<open>None\<close> when no
  pose was detected, otherwise the array \<^verbatim>\<open>landmarks.landmark\<close>.
\<close>

record point =
  pt_x :: real
  pt_y :: real

type_synonym frame = "point list option"

text \<open>
  \<^verbatim>\<open>math.atan2(y, x)\<close> and \<^verbatim>\<open>math.degrees\<close> of the Python library, as the real
  functions they approximate. The result of \<open>atan2\<close> lies in \<open>(-\<pi>, \<pi>]\<close>.
\<close>

definition atan2 :: "real \<Rightarrow> real \<Rightarrow> real" where
  "atan2 b a =
     (if a > 0 then arctan (b / a)
      else if a < 0 then (if b \<ge> 0 then arctan (b / a) + pi else arctan (b / a) - pi)
      else if b > 0 then pi / 2
      else if b < 0 then - pi / 2
      else 0)"

definition degrees :: "real \<Rightarrow> real" where
  "degrees r = r * 180 / pi"

text \<open>The angle from the horizontal after \<^verbatim>\<open>if angle_from_horizontal < 0: ... += 360\<close>.\<close>

definition angle_from_horizontal :: "point \<Rightarrow> point \<Rightarrow> real" where
  "angle_from_horizontal point1 point2 =
     (let dx = pt_x point2 - pt_x point1;
          dy = pt_y point2 - pt_y point1;
          a = degrees (atan2 (- dy) dx)
      in if a < 0 then a + 360 else a)"

definition get_segment_angle :: "point \<Rightarrow> point \<Rightarrow> real" where
  "get_segment_angle point1 point2 =
     (let a = angle_from_horizontal point1 point2
      in if a \<le> 90 then 90 - a
         else if a \<le> 180 then a - 90
         else if a \<le> 270 then 270 - a
         else a - 270)"

definition get_ankle_segment_angle :: "point \<Rightarrow> point \<Rightarrow> real" where
  "get_ankle_segment_angle point1 point2 =
     (let a = angle_from_horizontal point1 point2
      in if a \<le> 90 then a
         else if a \<le> 180 then 180 - a
         else if a \<le> 270 then 270 - a
         else 360 - a)"

text \<open>The folding rule as the specification words it.\<close>

definition spec_fold :: "real \<Rightarrow> real" where
  "spec_fold v =
     (if v \<le> 90 then 90 - v
      else if v \<le> 180 then v - 90
      else if v \<le> 270 then 270 - v
      else 360 - v)"

text \<open>\<^verbatim>\<open>landmarks.landmark[k]\<close>, which raises \<^verbatim>\<open>IndexError\<close> out of range.\<close>

definition landmark :: "point list \<Rightarrow> nat \<Rightarrow> error + point" where
  "landmark lms k = (if k < length lms then Inr (lms ! k) else Inl IndexError)"

text \<open>
  The body of the three per-frame loops, which differ in the segment function and in the
  four landmark numbers only: the left segment from \<open>a\<close> to \<open>b\<close>, the right one from \<open>c\<close>
  to \<open>d\<close>, read in the order of the source. Both segment functions return a float, so the
  branch \<^verbatim>\<open>angles.append(None)\<close> after them is never taken.
\<close>

definition frame_angle ::
  "(point \<Rightarrow> point \<Rightarrow> real) \<Rightarrow> nat \<Rightarrow> nat \<Rightarrow> nat \<Rightarrow> nat \<Rightarrow> frame \<Rightarrow> error + real option" where
  "frame_angle seg a b c d fr =
     (case fr of
        None \<Rightarrow> Inr None
      | Some lms \<Rightarrow>
         (case landmark lms a of Inl e \<Rightarrow> Inl e | Inr pa \<Rightarrow>
          (case landmark lms b of Inl e \<Rightarrow> Inl e | Inr pb \<Rightarrow>
           (case landmark lms c of Inl e \<Rightarrow> Inl e | Inr pc \<Rightarrow>
            (case landmark lms d of Inl e \<Rightarrow> Inl e | Inr pd \<Rightarrow>
              (let left_angle = seg pa pb; right_angle = seg pc pd
               in Inr (Some ((left_angle + right_angle) / 2))))))))"

fun angles_per_frame ::
  "(point \<Rightarrow> point \<Rightarrow> real) \<Rightarrow> nat \<Rightarrow> nat \<Rightarrow> nat \<Rightarrow> nat \<Rightarrow> frame list \<Rightarrow> error + real option list" where
  "angles_per_frame seg a b c d [] = Inr []"
| "angles_per_frame seg a b c d (fr # frs) =
     (case frame_angle seg a b c d fr of
        Inl e \<Rightarrow> Inl e
      | Inr v \<Rightarrow>
         (case angles_per_frame seg a b c d frs of
            Inl e \<Rightarrow> Inl e
          | Inr vs \<Rightarrow> Inr (v # vs)))"

definition calculate_torso_angle_per_frame :: "frame list \<Rightarrow> error + real option list" where
  "calculate_torso_angle_per_frame landmarks_list =
     angles_per_frame get_segment_angle 23 11 24 12 landmarks_list"

definition calculate_quad_angle_per_frame :: "frame list \<Rightarrow> error + real option list" where
  "calculate_quad_angle_per_frame landmarks_list =
     angles_per_frame get_segment_angle 23 25 24 26 landmarks_list"

definition calculate_ankle_angle_per_frame :: "frame list \<Rightarrow> error + real option list" where
  "calculate_ankle_angle_per_frame landmarks_list =
     angles_per_frame get_ankle_segment_angle 29 25 30 26 landmarks_list"

record squat_form =
  torso_angle :: "real option list"
  quad_angle :: "real option list"
  ankle_angle :: "real option list"

definition calculate_squat_form :: "frame list \<Rightarrow> error + squat_form" where
  "calculate_squat_form landmarks_list =
     (case calculate_torso_angle_per_frame landmarks_list of Inl e \<Rightarrow> Inl e | Inr t \<Rightarrow>
      (case calculate_quad_angle_per_frame landmarks_list of Inl e \<Rightarrow> Inl e | Inr q \<Rightarrow>
       (case calculate_ankle_angle_per_frame landmarks_list of Inl e \<Rightarrow> Inl e | Inr a \<Rightarrow>
          Inr \<lparr>torso_angle = t, quad_angle = q, ankle_angle = a\<rparr>)))"

text \<open>
  A frame is complete when no pose was detected in it or it has the landmarks 0 to 30, the
  highest number the extractor reads.
\<close>

definition frame_complete :: "frame \<Rightarrow> bool" where
  "frame_complete fr = (case fr of None \<Rightarrow> True | Some lms \<Rightarrow> 31 \<le> length lms)"

text \<open>An angle of a series is in range when it is missing or lies in \<open>[0, 90]\<close>.\<close>

definition in_range :: "real option \<Rightarrow> bool" where
  "in_range v = (case v of None \<Rightarrow> True | Some a \<Rightarrow> 0 \<le> a \<and> a \<le> 90)"

subsection \<open>Concrete recordings\<close>





text \<open>
  \<open>onset_series\<close>: the first five frames of a descent; the angle rises from 90 to 99
  degrees, rests for one frame (a change of 1/32 of a degree) and rises again.
\<close>

definition onset_series :: "rat option list" where
  "onset_series = map Some [90, 99, 99 + 1 / 32, 104, 110]"

text \<open>
  \<open>standing_frame\<close>: the 33 landmarks of a lifter standing upright, seen from the side,
  every landmark on the vertical line \<open>x = 1/2\<close>: shoulders (11, 12) at height 3/10, hips
  (23, 24) at 1/2, knees (25, 26) at 7/10, every other landmark at 9/10.
\<close>

definition standing_frame :: "point list" where
  "standing_frame =
     map (\<lambda>k. \<lparr>pt_x = 1 / 2,
                 pt_y = (if k = 11 \<or> k = 12 then 3 / 10
                         else if k = 23 \<or> k = 24 then 1 / 2
                         else if k = 25 \<or> k = 26 then 7 / 10
                         else 9 / 10)\<rparr>)
         [0..<33]"

text \<open>A hip and a knee of a lifter in the squat, the thigh pointing down and forward.\<close>

definition hip_point :: point where
  "hip_point = \<lparr>pt_x = 1 / 4, pt_y = 1 / 4\<rparr>"

definition knee_point :: point where
  "knee_point = \<lparr>pt_x = 1 / 2, pt_y = 3 / 4\<rparr>"

subsection \<open>Notions used in the proofs about rep segmentation\<close>








section \<open>Verified properties\<close>

subsection \<open>Score aggregation\<close>










lemma score_step_cong:
  assumes "fa1 (fst kw) = fa2 (fst kw)"
  shows "score_step fa1 kw = score_step fa2 kw"
  using assms by (cases kw) (simp add: score_step_def fun_eq_iff)

lemma weights_keys:
  assumes "kw \<in> set weights"
  shows "fst kw \<noteq> ''ankle_angle'' \<and> fst kw \<noteq> ''knee_valgus''"
proof -
  have "''ankle_angle'' \<notin> set (map fst weights)" "''knee_valgus'' \<notin> set (map fst weights)"
    by (simp_all add: weights_def)
  moreover have "fst kw \<in> set (map fst weights)" using assms by simp
  ultimately show ?thesis by metis
qed

lemma fold_score_step_cong:
  assumes "\<And>kw. kw \<in> set tbl \<Longrightarrow> fa1 (fst kw) = fa2 (fst kw)"
  shows "fold (score_step fa1) tbl st = fold (score_step fa2) tbl st"
  using assms
proof (induction tbl arbitrary: st)
  case Nil
  show ?case by simp
next
  case (Cons kw tbl)
  have "score_step fa1 kw st = score_step fa2 kw st"
    using Cons.prems [of kw] score_step_cong [of fa1 kw fa2] by simp
  then show ?case using Cons by simp
qed





text \<open>
  Claim C9. Two form-analysis mappings that differ only in their \<^verbatim>\<open>ankle_angle\<close> and
  \<^verbatim>\<open>knee_valgus\<close> entries are a mapping and the same mapping with these two entries
  overwritten, by a metric result or by nothing. \<^verbatim>\<open>calculate_final_score\<close> returns the
  same output (final score, grade, component scores and weights) on both.
\<close>

theorem final_score_ignores_unweighted_metrics:
  "calculate_final_score (fa(''ankle_angle'' := a, ''knee_valgus'' := v))
     = calculate_final_score fa"
proof -
  have "fold (score_step (fa(''ankle_angle'' := a, ''knee_valgus'' := v))) weights (0, 0, [])
          = fold (score_step fa) weights (0, 0, [])"
    by (rule fold_score_step_cong) (use weights_keys in force)
  then show ?thesis by (simp add: calculate_final_score_def)
qed

subsection \<open>Rep segmentation\<close>


























































subsection \<open>Active-phase filtering\<close>

text \<open>
  Claim C10. When the supplied phases contain zero reps (or no \<^verbatim>\<open>reps\<close> entry), the
  active-phase filter \<^verbatim>\<open>_extract_active_angles\<close> returns the input series unchanged, not
  an empty series; so does \<^verbatim>\<open>_filter_to_active_phases\<close> when the segmenter finds no rep
  in the quad series.
\<close>

theorem no_reps_returns_series_unchanged:
  "extract_active_angles angles (Some []) = angles
   \<and> extract_active_angles angles None = angles
   \<and> (detect_squat_phases quad 30 = Inr [] \<longrightarrow> filter_to_active_phases torso quad = Inr torso)"
  by (simp add: extract_active_angles_def filter_to_active_phases_def)


theorem no_reps_returns_series_unchanged_witness:
  "detect_squat_phases [Some 90, Some 95, Some 90, Some 92, Some 90] 30 = Inr []
   \<and> filter_to_active_phases [Some 10, Some 12, None, Some 11, Some 10]
        [Some 90, Some 95, Some 90, Some 92, Some 90]
       = Inr [Some 10, Some 12, None, Some 11, Some 10]"
proof -
  have h: "detect_squat_phases [Some 90, Some 95, Some 90, Some 92, Some 90] 30 = Inr []"
    by code_simp
  show ?thesis
    using h no_reps_returns_series_unchanged [of "[]::rat option list" "[Some 90, Some 95, Some 90, Some 92, Some 90]"
                    "[Some 10, Some 12, None, Some 11, Some 10]"]
    by simp
qed

subsection \<open>Rep consistency\<close>

text \<open>
  Claim C7 at the input \<open>[70, 70]\<close>, two reps with the same summary value. The mean is 70,
  the standard deviation and the coefficient of variation are 0, and the rule of the
  claim gives status good with score 100. \<^verbatim>\<open>_analyze_single_consistency\<close> tests the
  truth value of \<^verbatim>\<open>cv\<close>, which is false for \<^verbatim>\<open>0.0\<close>, and returns status error with
  score 0.
\<close>

theorem identical_reps_reported_as_error:
  "calculate_consistency_metrics [70, 70] = (Some 70, Some 0, Some 0)
   \<and> analyze_single_consistency [70, 70] = (''error'', 0)
   \<and> cv_of [70, 70] = 0
   \<and> cv_rule (cv_of [70, 70]) = (''good'', 100)"
  by (simp add: calculate_consistency_metrics_def analyze_single_consistency_def truthy_def
        cv_of_def cv_rule_def Let_def)


text \<open>Away from a coefficient of variation of exactly 0 the code follows the rule.\<close>

lemma analyze_single_consistency_nonzero_cv:
  assumes "2 \<le> length vals" "sum_list vals / of_nat (length vals) \<noteq> 0" "cv_of vals \<noteq> 0"
  shows "analyze_single_consistency vals = cv_rule (cv_of vals)"
proof -
  define c where "c = cv_of vals"
  have "\<exists>m sd. calculate_consistency_metrics vals = (Some m, Some sd, Some c)"
    unfolding c_def cv_of_def calculate_consistency_metrics_def Let_def
    using assms(1,2) by simp
  then obtain m sd where "calculate_consistency_metrics vals = (Some m, Some sd, Some c)"
    by blast
  moreover have "c \<noteq> 0" using assms(3) by (simp add: c_def)
  ultimately have "analyze_single_consistency vals = cv_rule c"
    by (simp add: analyze_single_consistency_def truthy_def determine_consistency_status_def
          cv_rule_def)
  then show ?thesis by (simp add: c_def)
qed

subsection \<open>Movement onset\<close>

text \<open>
  Claim C8 at the input \<open>onset_series\<close>, window from frame 0 to frame 4, 30 fps. The
  smoothed baseline is about 96.01 degrees. At frame 2 the angle is 3.02 degrees away from
  it and moves at 0.94 degrees per second; at frame 3 it moves at 149 degrees per second.
  The first frame with a speed of at least 2 degrees per second (and 3 degrees away from
  the baseline) is frame 3; the code compares the speed with \<^verbatim>\<open>2.0 / fps\<close> and returns
  frame 2.
\<close>

theorem onset_threshold_divided_by_fps:
  "detect_movement_start_velocity onset_series 0 4 30 = Inr 2
   \<and> spec_onset onset_series 0 4 30 = Some 3"
  by code_simp


subsection \<open>Angle extraction\<close>

lemma atan2_bounds: "- pi < atan2 b a \<and> atan2 b a \<le> pi"
proof -
  have lo: "- (pi / 2) < arctan (b / a)" by (rule arctan_lbound)
  have hi: "arctan (b / a) < pi / 2" by (rule arctan_ubound)
  consider "a > 0" | "a < 0" "b \<ge> 0" | "a < 0" "b < 0" | "a = 0" "b > 0" | "a = 0" "b < 0"
    | "a = 0" "b = 0"
    by linarith
  then show ?thesis
  proof cases
    case 1
    then have "atan2 b a = arctan (b / a)" by (simp add: atan2_def)
    then show ?thesis using lo hi pi_gt_zero by linarith
  next
    case 2
    then have "b / a \<le> 0" by (simp add: divide_nonneg_neg)
    then have "arctan (b / a) \<le> arctan 0" by (simp only: arctan_le_iff)
    then have le: "arctan (b / a) \<le> 0" by simp
    have "atan2 b a = arctan (b / a) + pi" using 2 by (simp add: atan2_def)
    then show ?thesis using lo le pi_gt_zero by linarith
  next
    case 3
    then have "0 < b / a" by (simp add: divide_neg_neg)
    then have "arctan 0 < arctan (b / a)" by (simp only: arctan_less_iff)
    then have gt: "0 < arctan (b / a)" by simp
    have "atan2 b a = arctan (b / a) - pi" using 3 by (simp add: atan2_def)
    then show ?thesis using hi gt pi_gt_zero by linarith
  next
    case 4
    then have "atan2 b a = pi / 2" by (simp add: atan2_def)
    then show ?thesis using pi_gt_zero by linarith
  next
    case 5
    then have "atan2 b a = - pi / 2" by (simp add: atan2_def)
    then show ?thesis using pi_gt_zero by linarith
  next
    case 6
    then have "atan2 b a = 0" by (simp add: atan2_def)
    then show ?thesis using pi_gt_zero by linarith
  qed
qed

lemma degrees_bounds: "- 180 < degrees (atan2 b a) \<and> degrees (atan2 b a) \<le> 180"
proof -
  have b: "- pi < atan2 b a" "atan2 b a \<le> pi" using atan2_bounds by blast+
  have "- 180 < atan2 b a * 180 / pi \<longleftrightarrow> - 180 * pi < atan2 b a * 180"
    using pi_gt_zero by (simp only: pos_less_divide_eq)
  moreover have "atan2 b a * 180 / pi \<le> 180 \<longleftrightarrow> atan2 b a * 180 \<le> 180 * pi"
    using pi_gt_zero by (simp only: pos_divide_le_eq)
  ultimately show ?thesis using b unfolding degrees_def by linarith
qed

lemma angle_from_horizontal_range:
  "0 \<le> angle_from_horizontal p1 p2 \<and> angle_from_horizontal p1 p2 < 360"
  using degrees_bounds [of "- (pt_y p2 - pt_y p1)" "pt_x p2 - pt_x p1"]
  by (simp add: angle_from_horizontal_def Let_def)

lemma get_segment_angle_range:
  "0 \<le> get_segment_angle p1 p2 \<and> get_segment_angle p1 p2 \<le> 90"
  using angle_from_horizontal_range [of p1 p2]
  by (simp add: get_segment_angle_def Let_def)

lemma get_ankle_segment_angle_range:
  "0 \<le> get_ankle_segment_angle p1 p2 \<and> get_ankle_segment_angle p1 p2 \<le> 90"
  using angle_from_horizontal_range [of p1 p2]
  by (simp add: get_ankle_segment_angle_def Let_def)

text \<open>
  Claim C5, as amended. For every pair of 2D points, with \<open>v\<close> the \<^verbatim>\<open>atan2(-dy, dx)\<close>
  angle in degrees wrapped into \<open>[0, 360)\<close>, the torso/quad segment angle is \<open>90 - v\<close> for
  \<open>v\<close> in \<open>[0, 90]\<close>, \<open>v - 90\<close> for \<open>v\<close> in \<open>(90, 180]\<close>, \<open>270 - v\<close> for \<open>v\<close> in \<open>(180, 270]\<close> and
  \<open>v - 270\<close> for \<open>v\<close> in \<open>(270, 360)\<close>: the distance of \<open>v\<close> to the nearer of the two
  vertical directions, 90 and 270 degrees.
\<close>

theorem segment_angle_quadrant_folding:
  "get_segment_angle p1 p2 =
     (if angle_from_horizontal p1 p2 \<le> 90 then 90 - angle_from_horizontal p1 p2
      else if angle_from_horizontal p1 p2 \<le> 180 then angle_from_horizontal p1 p2 - 90
      else if angle_from_horizontal p1 p2 \<le> 270 then 270 - angle_from_horizontal p1 p2
      else angle_from_horizontal p1 p2 - 270)
   \<and> 0 \<le> angle_from_horizontal p1 p2 \<and> angle_from_horizontal p1 p2 < 360
   \<and> get_segment_angle p1 p2
       = min \<bar>angle_from_horizontal p1 p2 - 90\<bar> \<bar>angle_from_horizontal p1 p2 - 270\<bar>"
  using angle_from_horizontal_range [of p1 p2]
  by (simp add: get_segment_angle_def Let_def min_def)


lemma arctan_two_bounds: "pi / 4 < arctan 2 \<and> arctan 2 < pi / 2"
proof -
  have "arctan 1 < arctan 2" by (simp only: arctan_less_iff)
  then show ?thesis using arctan_ubound [of 2] by (simp add: arctan_one)
qed

lemma hip_knee_angle:
  "angle_from_horizontal hip_point knee_point = 360 - degrees (arctan 2)"
proof -
  have "atan2 (- (3 / 4 - 1 / 4)) (1 / 2 - 1 / 4) = arctan (- 2)"
    by (simp add: atan2_def)
  then have a: "atan2 (- (pt_y knee_point - pt_y hip_point)) (pt_x knee_point - pt_x hip_point)
                  = - arctan 2"
    by (simp add: hip_point_def knee_point_def arctan_minus)
  have "0 < arctan 2" using arctan_two_bounds pi_gt_zero by linarith
  then have "degrees (- arctan 2) < 0"
    using pi_gt_zero by (simp add: degrees_def divide_neg_pos)
  then show ?thesis
    unfolding angle_from_horizontal_def Let_def a by (simp add: degrees_def)
qed

lemma degrees_arctan_two: "45 < degrees (arctan 2) \<and> degrees (arctan 2) < 90"
proof -
  have b: "pi / 4 < arctan 2" "arctan 2 < pi / 2" using arctan_two_bounds by blast+
  have "45 < arctan 2 * 180 / pi \<longleftrightarrow> 45 * pi < arctan 2 * 180"
    using pi_gt_zero by (simp only: pos_less_divide_eq)
  moreover have "arctan 2 * 180 / pi < 90 \<longleftrightarrow> arctan 2 * 180 < 90 * pi"
    using pi_gt_zero by (simp only: pos_divide_less_eq)
  ultimately show ?thesis using b unfolding degrees_def by linarith
qed


text \<open>
  Claim C5 as stated fails in the fourth quadrant. From \<open>hip_point\<close> to \<open>knee_point\<close> the
  wrapped angle \<open>v\<close> is about 296.6 degrees; the code returns \<open>v - 270\<close>, about 26.6, and
  not \<open>360 - v\<close>, about 63.4.
\<close>

theorem segment_angle_fourth_quadrant_counterexample:
  "270 < angle_from_horizontal hip_point knee_point
   \<and> angle_from_horizontal hip_point knee_point < 360
   \<and> get_segment_angle hip_point knee_point = angle_from_horizontal hip_point knee_point - 270
   \<and> get_segment_angle hip_point knee_point
       \<noteq> spec_fold (angle_from_horizontal hip_point knee_point)"
  using degrees_arctan_two
  by (simp add: get_segment_angle_def spec_fold_def hip_knee_angle Let_def)


lemma frame_angle_range:
  assumes seg: "\<And>p q. 0 \<le> seg p q \<and> seg p q \<le> 90"
    and "frame_angle seg a b c d fr = Inr v"
  shows "in_range v"
proof (cases fr)
  case None
  then show ?thesis using assms(2) by (simp add: frame_angle_def in_range_def)
next
  case (Some lms)
  from assms(2) obtain pa pb pc pd where "v = Some ((seg pa pb + seg pc pd) / 2)"
    by (auto simp: frame_angle_def Some Let_def split: sum.splits)
  then show ?thesis using seg [of pa pb] seg [of pc pd] by (simp add: in_range_def)
qed

lemma angles_per_frame_range:
  assumes seg: "\<And>p q. 0 \<le> seg p q \<and> seg p q \<le> 90"
  shows "angles_per_frame seg a b c d frs = Inr vs \<Longrightarrow> list_all in_range vs"
proof (induction frs arbitrary: vs)
  case Nil
  then show ?case by simp
next
  case (Cons fr frs)
  from Cons.prems obtain v ws where v: "frame_angle seg a b c d fr = Inr v"
      and ws: "angles_per_frame seg a b c d frs = Inr ws" and vs: "vs = v # ws"
    by (auto split: sum.splits)
  have "in_range v" using frame_angle_range [OF seg v] .
  moreover have "list_all in_range ws" using Cons.IH [OF ws] .
  ultimately show ?case by (simp add: vs)
qed


text \<open>
  The Angle Extractor returns on every sequence of complete frames; on a detected frame
  with fewer landmarks it raises \<^verbatim>\<open>IndexError\<close> and produces no angle.
\<close>

lemma frame_angle_total:
  assumes "frame_complete fr" "a < 31" "b < 31" "c < 31" "d < 31"
  shows "\<exists>v. frame_angle seg a b c d fr = Inr v"
  using assms
  by (cases fr) (simp_all add: frame_angle_def frame_complete_def landmark_def Let_def)

lemma angles_per_frame_total:
  assumes "a < 31" "b < 31" "c < 31" "d < 31"
  shows "list_all frame_complete frs \<Longrightarrow> \<exists>vs. angles_per_frame seg a b c d frs = Inr vs"
proof (induction frs)
  case Nil
  show ?case by simp
next
  case (Cons fr frs)
  then obtain vs where "angles_per_frame seg a b c d frs = Inr vs" by auto
  moreover obtain v where "frame_angle seg a b c d fr = Inr v"
    using frame_angle_total [OF _ assms] Cons.prems by auto
  ultimately show ?case by simp
qed

lemma calculate_squat_form_total:
  assumes "list_all frame_complete landmarks_list"
  shows "\<exists>res. calculate_squat_form landmarks_list = Inr res"
proof -
  obtain t where "calculate_torso_angle_per_frame landmarks_list = Inr t"
    unfolding calculate_torso_angle_per_frame_def
    using angles_per_frame_total [OF _ _ _ _ assms, of 23 11 24 12] by auto
  moreover obtain q where "calculate_quad_angle_per_frame landmarks_list = Inr q"
    unfolding calculate_quad_angle_per_frame_def
    using angles_per_frame_total [OF _ _ _ _ assms, of 23 25 24 26] by auto
  moreover obtain a where "calculate_ankle_angle_per_frame landmarks_list = Inr a"
    unfolding calculate_ankle_angle_per_frame_def
    using angles_per_frame_total [OF _ _ _ _ assms, of 29 25 30 26] by auto
  ultimately show ?thesis by (simp add: calculate_squat_form_def)
qed

text \<open>
  Claim C6. For every input landmark sequence on which the Angle Extractor returns, each
  per-frame torso, quad and ankle angle it produces is either missing or a value in the
  closed interval from 0 to 90 degrees.
\<close>

theorem per_frame_angles_in_range:
  assumes "calculate_squat_form landmarks_list = Inr res"
  shows "list_all in_range (torso_angle res) \<and> list_all in_range (quad_angle res)
         \<and> list_all in_range (ankle_angle res)"
proof -
  from assms obtain t q a where
    t: "calculate_torso_angle_per_frame landmarks_list = Inr t" and
    q: "calculate_quad_angle_per_frame landmarks_list = Inr q" and
    a: "calculate_ankle_angle_per_frame landmarks_list = Inr a" and
    res: "res = \<lparr>torso_angle = t, quad_angle = q, ankle_angle = a\<rparr>"
    by (auto simp: calculate_squat_form_def split: sum.splits)
  have "list_all in_range t"
    using t angles_per_frame_range [of get_segment_angle, OF get_segment_angle_range]
    unfolding calculate_torso_angle_per_frame_def by blast
  moreover have "list_all in_range q"
    using q angles_per_frame_range [of get_segment_angle, OF get_segment_angle_range]
    unfolding calculate_quad_angle_per_frame_def by blast
  moreover have "list_all in_range a"
    using a angles_per_frame_range [of get_ankle_segment_angle, OF get_ankle_segment_angle_range]
    unfolding calculate_ankle_angle_per_frame_def by blast
  ultimately show ?thesis by (simp add: res)
qed


lemma standing_landmark:
  "k < 33 \<Longrightarrow> landmark standing_frame k
     = Inr \<lparr>pt_x = 1 / 2,
            pt_y = (if k = 11 \<or> k = 12 then 3 / 10
                    else if k = 23 \<or> k = 24 then 1 / 2
                    else if k = 25 \<or> k = 26 then 7 / 10
                    else 9 / 10)\<rparr>"
  by (simp add: landmark_def standing_frame_def)

lemma standing_angles:
  "frame_angle get_segment_angle 23 11 24 12 (Some standing_frame) = Inr (Some 0)"
  "frame_angle get_segment_angle 23 25 24 26 (Some standing_frame) = Inr (Some 0)"
  "frame_angle get_ankle_segment_angle 29 25 30 26 (Some standing_frame) = Inr (Some 90)"
  by (simp_all add: frame_angle_def standing_landmark get_segment_angle_def
        get_ankle_segment_angle_def angle_from_horizontal_def atan2_def degrees_def Let_def)

lemma standing_form:
  "calculate_squat_form [None, Some standing_frame]
     = Inr \<lparr>torso_angle = [None, Some 0], quad_angle = [None, Some 0],
            ankle_angle = [None, Some 90]\<rparr>"
proof -
  have n: "frame_angle seg a b c d None = Inr None" for seg a b c d
    by (simp add: frame_angle_def)
  show ?thesis
    by (simp add: calculate_squat_form_def calculate_torso_angle_per_frame_def
          calculate_quad_angle_per_frame_def calculate_ankle_angle_per_frame_def
          standing_angles n)
qed


theorem per_frame_angles_in_range_witness:
  "calculate_squat_form [None, Some standing_frame]
     = Inr \<lparr>torso_angle = [None, Some 0], quad_angle = [None, Some 0],
            ankle_angle = [None, Some 90]\<rparr>
   \<and> list_all in_range [None, Some 0] \<and> list_all in_range [None, Some 90]"
  using per_frame_angles_in_range [OF standing_form] standing_form by simp

end
